theory Spec2Isabelle
  imports Complex_Main
begin

section \<open>Python values\<close>

text \<open>
  The requests, responses and results of \<^verbatim>\<open>llm_serve.py\<close> are Python dictionaries of
  type \<^verbatim>\<open>Dict[str, Any]\<close>. Their values are modelled by the JSON-shaped type \<open>pyval\<close>.
  A float is carried as the number its literal denotes: the program stores and forwards
  floats, it never computes with them. A nested dictionary keeps its items in insertion
  order, as Python does.
\<close>

datatype pyval =
    PNone
  | PBool bool
  | PInt int
  | PFloat real
  | PStr string
  | PList "pyval list"
  | PDict "(string \<times> pyval) list"

text \<open>
  An instance of Python's \<^verbatim>\<open>Exception\<close> class, which is what \<^verbatim>\<open>except Exception\<close>
  catches: the name of its class and \<^verbatim>\<open>str(e)\<close>. The interpreter's exit signals
  (\<^verbatim>\<open>KeyboardInterrupt\<close>, \<^verbatim>\<open>SystemExit\<close>) are not exceptions in this sense and are
  not modelled.
\<close>

datatype pyexn = Exn (exn_class: string) (exn_str: string)

type_synonym pydict = "(string \<times> pyval) list"

type_synonym request = "string \<rightharpoonup> pyval"

text \<open>\<^verbatim>\<open>request.get(key, default)\<close> on a dictionary.\<close>

definition request_get :: "request \<Rightarrow> string \<Rightarrow> pyval \<Rightarrow> pyval" where
  "request_get request key dflt = (case request key of None \<Rightarrow> dflt | Some v \<Rightarrow> v)"

fun type_name :: "pyval \<Rightarrow> string" where
  "type_name PNone = ''NoneType''"
| "type_name (PBool b) = ''bool''"
| "type_name (PInt i) = ''int''"
| "type_name (PFloat x) = ''float''"
| "type_name (PStr s) = ''str''"
| "type_name (PList xs) = ''list''"
| "type_name (PDict kvs) = ''dict''"

text \<open>Python's truth value of an object, as \<^verbatim>\<open>if not messages\<close> and \<^verbatim>\<open>if tools\<close> test it.\<close>

fun truthy :: "pyval \<Rightarrow> bool" where
  "truthy PNone = False"
| "truthy (PBool b) = b"
| "truthy (PInt i) = (i \<noteq> 0)"
| "truthy (PFloat x) = (x \<noteq> 0)"
| "truthy (PStr s) = (s \<noteq> [])"
| "truthy (PList xs) = (xs \<noteq> [])"
| "truthy (PDict kvs) = (kvs \<noteq> [])"

definition quoted :: "string \<Rightarrow> string" where
  "quoted s = [CHR 0x27] @ s @ [CHR 0x27]"

text \<open>
  The exceptions the interpreter itself raises on a value of the wrong shape. The message
  texts are CPython 3.11's; no theorem below depends on their wording.
\<close>

definition no_len :: "pyval \<Rightarrow> pyexn" where
  "no_len v = Exn ''TypeError'' (''object of type '' @ quoted (type_name v) @ '' has no len()'')"

definition not_subscriptable :: "pyval \<Rightarrow> pyexn" where
  "not_subscriptable v = Exn ''TypeError'' (quoted (type_name v) @ '' object is not subscriptable'')"

definition no_attribute :: "string \<Rightarrow> string \<Rightarrow> pyexn" where
  "no_attribute tname attr =
     Exn ''AttributeError'' (quoted tname @ '' object has no attribute '' @ quoted attr)"

text \<open>\<^verbatim>\<open>len(v)\<close>.\<close>

fun py_len :: "pyval \<Rightarrow> pyexn + nat" where
  "py_len (PStr s) = Inr (length s)"
| "py_len (PList xs) = Inr (length xs)"
| "py_len (PDict kvs) = Inr (length kvs)"
| "py_len v = Inl (no_len v)"

text \<open>\<^verbatim>\<open>v[key]\<close> for a string key: \<^verbatim>\<open>response["choices"]\<close>, \<^verbatim>\<open>choice["message"]\<close>.\<close>

fun getitem_str :: "pyval \<Rightarrow> string \<Rightarrow> pyexn + pyval" where
  "getitem_str (PDict kvs) key =
     (case map_of kvs key of None \<Rightarrow> Inl (Exn ''KeyError'' (quoted key)) | Some v \<Rightarrow> Inr v)"
| "getitem_str (PList xs) key =
     Inl (Exn ''TypeError'' ''list indices must be integers or slices, not str'')"
| "getitem_str (PStr s) key =
     Inl (Exn ''TypeError'' (''string indices must be integers, not '' @ quoted ''str''))"
| "getitem_str v key = Inl (not_subscriptable v)"

text \<open>\<^verbatim>\<open>v[0]\<close>. A dictionary of this model has string keys only, so the key 0 is missing.\<close>

fun getitem_0 :: "pyval \<Rightarrow> pyexn + pyval" where
  "getitem_0 (PList xs) =
     (case xs of [] \<Rightarrow> Inl (Exn ''IndexError'' ''list index out of range'') | x # _ \<Rightarrow> Inr x)"
| "getitem_0 (PStr s) =
     (case s of [] \<Rightarrow> Inl (Exn ''IndexError'' ''string index out of range'')
      | c # _ \<Rightarrow> Inr (PStr [c]))"
| "getitem_0 (PDict kvs) = Inl (Exn ''KeyError'' ''0'')"
| "getitem_0 v = Inl (not_subscriptable v)"

text \<open>\<^verbatim>\<open>v.get(key, default)\<close> on any value: only a dictionary has the method.\<close>

fun pyval_get :: "pyval \<Rightarrow> string \<Rightarrow> pyval \<Rightarrow> pyexn + pyval" where
  "pyval_get (PDict kvs) key dflt =
     (case map_of kvs key of None \<Rightarrow> Inr dflt | Some v \<Rightarrow> Inr v)"
| "pyval_get v key dflt = Inl (no_attribute (type_name v) ''get'')"

text \<open>\<^verbatim>\<open>len(v) if v else 0\<close>, the size metric of the success log line.\<close>

definition len_or_0 :: "pyval \<Rightarrow> pyexn + nat" where
  "len_or_0 v = (if truthy v then py_len v else Inr 0)"

section \<open>The model runtime and its observable effects\<close>

text \<open>
  The keyword arguments of \<^verbatim>\<open>Llama(...)\<close> and of \<^verbatim>\<open>create_chat_completion(...)\<close>.
\<close>

record load_kwargs =
  kw_model_path :: string
  kw_n_ctx :: int
  kw_n_gpu_layers :: int
  kw_n_threads :: int
  kw_verbose :: bool

record chat_kwargs =
  kw_messages :: pyval
  kw_max_tokens :: pyval
  kw_temperature :: pyval
  kw_tools :: pyval
  kw_tool_choice :: pyval
  kw_response_format :: pyval

text \<open>
  Every call that leaves the program is recorded: a construction of \<^verbatim>\<open>Llama\<close> with its
  arguments and whether it returned a model, and an invocation of
  \<^verbatim>\<open>create_chat_completion\<close> with its arguments.
\<close>

datatype event =
    LlamaInit load_kwargs bool
  | ChatCompletion chat_kwargs

text \<open>
  The world outside the program: \<open>ext\<close> is whatever state the model runtime and the process
  environment have (weights, caches, random seeds, files), \<open>trace\<close> the calls made so far.
\<close>

record 'w world =
  ext :: 'w
  trace :: "event list"

text \<open>
  The collaborators of \<^verbatim>\<open>llama_cpp\<close> and the standard library, taken as parameters:
  the constructor \<^verbatim>\<open>Llama\<close>, the method \<^verbatim>\<open>create_chat_completion\<close> of a loaded model
  \<open>'m\<close>, the mapping \<^verbatim>\<open>os.environ\<close> and the builtin \<^verbatim>\<open>int\<close> on a string. Each may raise,
  and each may depend on and change the outside state.
\<close>

record ('m, 'w) runtime =
  Llama :: "load_kwargs \<Rightarrow> 'w \<Rightarrow> (pyexn + 'm) \<times> 'w"
  create_chat_completion :: "'m \<Rightarrow> chat_kwargs \<Rightarrow> 'w \<Rightarrow> (pyexn + pyval) \<times> 'w"
  environ :: "'w \<Rightarrow> string \<rightharpoonup> string"
  py_int :: "string \<Rightarrow> pyexn + int"

section \<open>LLMModel\<close>

record 'm LLMModel =
  model_path :: string
  n_ctx :: int
  n_gpu_layers :: int
  model :: "'m option"

definition LLMModel_init :: "string \<Rightarrow> int \<Rightarrow> int \<Rightarrow> 'm LLMModel" where
  "LLMModel_init path ctx layers =
     \<lparr>model_path = path, n_ctx = ctx, n_gpu_layers = layers, model = None\<rparr>"

text \<open>
  \<^verbatim>\<open>LLMModel.start\<close>. The arguments of the constructor are evaluated first, so a thread
  count that does not parse raises before \<^verbatim>\<open>Llama\<close> is called. An exception leaves
  \<^verbatim>\<open>self.model\<close> as it was. The two log lines and the clock are left out.
\<close>

definition start ::
  "('m, 'w) runtime \<Rightarrow> 'm LLMModel \<Rightarrow> 'w world \<Rightarrow> (pyexn + unit) \<times> 'm LLMModel \<times> 'w world"
where
  "start rt self w =
     (case model self of
        Some m \<Rightarrow> (Inr (), self, w)
      | None \<Rightarrow>
          (case py_int rt (case environ rt (ext w) ''LLAMA_N_THREADS'' of
                             None \<Rightarrow> ''4'' | Some s \<Rightarrow> s) of
             Inl e \<Rightarrow> (Inl e, self, w)
           | Inr threads \<Rightarrow>
               (let kwargs = \<lparr>kw_model_path = model_path self, kw_n_ctx = n_ctx self,
                              kw_n_gpu_layers = n_gpu_layers self, kw_n_threads = threads,
                              kw_verbose = False\<rparr>
                in case Llama rt kwargs (ext w) of
                     (Inl e, x) \<Rightarrow>
                       (Inl e, self, \<lparr>ext = x, trace = trace w @ [LlamaInit kwargs False]\<rparr>)
                   | (Inr m, x) \<Rightarrow>
                       (Inr (), self\<lparr>model := Some m\<rparr>,
                        \<lparr>ext = x, trace = trace w @ [LlamaInit kwargs True]\<rparr>))))"

text \<open>The two result literals of the loop body that report a failure.\<close>

definition failure_result :: "pyval \<Rightarrow> string \<Rightarrow> pydict" where
  "failure_result request_id err =
     [(''request_id'', request_id), (''success'', PBool False), (''error'', PStr err),
      (''content'', PNone), (''tool_calls'', PNone)]"

text \<open>
  Lines 73 to 90: what the \<^verbatim>\<open>try\<close> block does with the response, in the order the
  source evaluates it. Every step may raise; \<open>Inl\<close> is the exception that reaches the handler.
\<close>

definition success_result :: "pyval \<Rightarrow> pyval \<Rightarrow> pyexn + pydict" where
  "success_result request_id response =
     (case getitem_str response ''choices'' of Inl e \<Rightarrow> Inl e | Inr choices \<Rightarrow>
      case getitem_0 choices of Inl e \<Rightarrow> Inl e | Inr choice \<Rightarrow>
      case getitem_str choice ''message'' of Inl e \<Rightarrow> Inl e | Inr message \<Rightarrow>
      case pyval_get message ''content'' PNone of Inl e \<Rightarrow> Inl e | Inr content \<Rightarrow>
      case pyval_get message ''tool_calls'' PNone of Inl e \<Rightarrow> Inl e | Inr tool_calls \<Rightarrow>
      case len_or_0 content of Inl e \<Rightarrow> Inl e | Inr content_length \<Rightarrow>
      case len_or_0 tool_calls of Inl e \<Rightarrow> Inl e | Inr tool_calls_count \<Rightarrow>
      case pyval_get response ''usage'' (PDict []) of Inl e \<Rightarrow> Inl e | Inr usage \<Rightarrow>
        Inr [(''request_id'', request_id), (''success'', PBool True), (''error'', PNone),
             (''content'', content), (''tool_calls'', tool_calls), (''usage'', usage)])"

text \<open>The keyword arguments line 63 to 70 pass for a request.\<close>

definition chat_kwargs_of :: "request \<Rightarrow> chat_kwargs" where
  "chat_kwargs_of request =
     (let messages = request_get request ''messages'' (PList []);
          max_tokens = request_get request ''max_tokens'' (PInt 512);
          temperature = request_get request ''temperature'' (PFloat 0.1);
          tools = request_get request ''tools'' PNone;
          tool_choice = request_get request ''tool_choice'' PNone
      in \<lparr>kw_messages = messages, kw_max_tokens = max_tokens, kw_temperature = temperature,
          kw_tools = tools, kw_tool_choice = tool_choice,
          kw_response_format =
            (if truthy tools then PDict [(''type'', PStr ''json_object'')] else PNone)\<rparr>)"

text \<open>
  The body of the loop for one request. \<open>Inl\<close> is an exception that leaves the body (and
  so \<^verbatim>\<open>__call__\<close>): \<^verbatim>\<open>len(messages)\<close> in the log line of line 48 stands outside the
  \<^verbatim>\<open>try\<close>. Inside the \<^verbatim>\<open>try\<close>, an unloaded model (\<^verbatim>\<open>self.model is None\<close>), the
  invocation and the reading of the response may raise; the handler turns each into a
  failure result.
\<close>

definition process_request ::
  "('m, 'w) runtime \<Rightarrow> 'm option \<Rightarrow> request \<Rightarrow> 'w world \<Rightarrow> (pyexn + pydict) \<times> 'w world"
where
  "process_request rt mdl request w =
     (let request_id = request_get request ''request_id'' (PStr ''unknown'');
          messages = request_get request ''messages'' (PList [])
      in case py_len messages of
           Inl e \<Rightarrow> (Inl e, w)
         | Inr messages_count \<Rightarrow>
             if \<not> truthy messages then (Inr (failure_result request_id ''empty_messages''), w)
             else
               (case mdl of
                  None \<Rightarrow>
                    (Inr (failure_result request_id
                            (exn_str (no_attribute ''NoneType'' ''create_chat_completion''))), w)
                | Some m \<Rightarrow>
                    (let kwargs = chat_kwargs_of request;
                         w1 = w\<lparr>trace := trace w @ [ChatCompletion kwargs]\<rparr>
                     in case create_chat_completion rt m kwargs (ext w) of
                          (Inl e, x) \<Rightarrow> (Inr (failure_result request_id (exn_str e)), w1\<lparr>ext := x\<rparr>)
                        | (Inr response, x) \<Rightarrow>
                            (case success_result request_id response of
                               Inl e \<Rightarrow> (Inr (failure_result request_id (exn_str e)), w1\<lparr>ext := x\<rparr>)
                             | Inr result \<Rightarrow> (Inr result, w1\<lparr>ext := x\<rparr>)))))"

text \<open>
  The \<^verbatim>\<open>for\<close> loop of \<^verbatim>\<open>__call__\<close>, with \<^verbatim>\<open>results\<close> as the list built so far.
\<close>

fun process_requests ::
  "('m, 'w) runtime \<Rightarrow> 'm option \<Rightarrow> request list \<Rightarrow> pydict list \<Rightarrow> 'w world
     \<Rightarrow> (pyexn + pydict list) \<times> 'w world"
where
  "process_requests rt mdl [] results w = (Inr results, w)"
| "process_requests rt mdl (request # rest) results w =
     (case process_request rt mdl request w of
        (Inl e, w') \<Rightarrow> (Inl e, w')
      | (Inr result, w') \<Rightarrow> process_requests rt mdl rest (results @ [result]) w')"

text \<open>\<^verbatim>\<open>LLMModel.__call__\<close>: load the model if needed, then run the loop.\<close>

definition LLMModel_call ::
  "('m, 'w) runtime \<Rightarrow> 'm LLMModel \<Rightarrow> request list \<Rightarrow> 'w world
     \<Rightarrow> (pyexn + pydict list) \<times> 'm LLMModel \<times> 'w world"
where
  "LLMModel_call rt self requests w =
     (case start rt self w of
        (Inl e, self', w') \<Rightarrow> (Inl e, self', w')
      | (Inr u, self', w') \<Rightarrow>
          (case process_requests rt (model self') requests [] w' of
             (res, w'') \<Rightarrow> (res, self', w'')))"

section \<open>LLMService\<close>

record 'm LLMService =
  service_model :: "'m LLMModel"
  max_batch_size :: pyval
  batch_wait_timeout_s :: pyval

definition LLMService_init :: "string \<Rightarrow> int \<Rightarrow> int \<Rightarrow> 'm LLMService" where
  "LLMService_init path ctx layers =
     \<lparr>service_model = LLMModel_init path ctx layers, max_batch_size = PInt 16,
      batch_wait_timeout_s = PFloat 0.05\<rparr>"

text \<open>
  An attribute of \<^verbatim>\<open>self.model.__call__\<close>, read by name. \<^verbatim>\<open>self.model\<close> is the
  \<^verbatim>\<open>LLMModel\<close>, whose \<^verbatim>\<open>__call__\<close> is a plain coroutine function: \<^verbatim>\<open>serve.batch\<close>
  wraps \<^verbatim>\<open>LLMService.__call__\<close>, not this one. A bound method forwards the lookup to its
  function, which has no attribute of its own, so every name raises.
\<close>

definition LLMModel_call_getattr :: "string \<Rightarrow> pyexn + (pyval \<Rightarrow> pyexn + unit)" where
  "LLMModel_call_getattr name = Inl (no_attribute ''function'' name)"

text \<open>
  \<^verbatim>\<open>LLMService.reconfigure\<close>: the two assignments, then the two setter calls. The
  result carries the object as the assignments left it, whatever follows.
\<close>

definition reconfigure :: "'m LLMService \<Rightarrow> request \<Rightarrow> (pyexn + unit) \<times> 'm LLMService" where
  "reconfigure self user_config =
     (let self1 = self\<lparr>max_batch_size := request_get user_config ''max_batch_size'' (PInt 16)\<rparr>;
          self2 = self1\<lparr>batch_wait_timeout_s :=
                          request_get user_config ''batch_wait_timeout_s'' (PFloat 0.05)\<rparr>
      in case LLMModel_call_getattr ''set_max_batch_size'' of
           Inl e \<Rightarrow> (Inl e, self2)
         | Inr set_max_batch_size \<Rightarrow>
             (case set_max_batch_size (max_batch_size self2) of
                Inl e \<Rightarrow> (Inl e, self2)
              | Inr u \<Rightarrow>
                  (case LLMModel_call_getattr ''set_batch_wait_timeout_s'' of
                     Inl e \<Rightarrow> (Inl e, self2)
                   | Inr set_batch_wait_timeout_s \<Rightarrow>
                       (case set_batch_wait_timeout_s (batch_wait_timeout_s self2) of
                          Inl e \<Rightarrow> (Inl e, self2)
                        | Inr u' \<Rightarrow> (Inr (), self2)))))"

text \<open>
  The body of \<^verbatim>\<open>LLMService.__call__\<close>, which the batching decorator calls with the
  requests of one batch: it returns what the model adapter returns and raises what it raises.
\<close>

definition LLMService_call ::
  "('m, 'w) runtime \<Rightarrow> 'm LLMService \<Rightarrow> request list \<Rightarrow> 'w world
     \<Rightarrow> (pyexn + pydict list) \<times> 'm LLMService \<times> 'w world"
where
  "LLMService_call rt self requests w =
     (case LLMModel_call rt (service_model self) requests w of
        (res, m', w') \<Rightarrow> (res, self\<lparr>service_model := m'\<rparr>, w'))"

section \<open>Notions the properties are stated with\<close>

text \<open>Whether \<^verbatim>\<open>len(v)\<close> returns: true of strings, lists and dictionaries.\<close>

definition has_len :: "pyval \<Rightarrow> bool" where
  "has_len v = (case py_len v of Inl e \<Rightarrow> False | Inr n \<Rightarrow> True)"

text \<open>
  The world in which the loop reaches position \<open>i\<close> of a batch: the one the loop leaves
  after the first \<open>i\<close> requests.
\<close>

definition slot_world ::
  "('m, 'w) runtime \<Rightarrow> 'm option \<Rightarrow> request list \<Rightarrow> nat \<Rightarrow> 'w world \<Rightarrow> 'w world" where
  "slot_world rt mdl requests i w = snd (process_requests rt mdl (take i requests) [] w)"

text \<open>The constructions of \<^verbatim>\<open>Llama\<close> and the model invocations of a trace, in order.\<close>

fun loads :: "event list \<Rightarrow> (load_kwargs \<times> bool) list" where
  "loads [] = []"
| "loads (LlamaInit kwargs ok # evs) = (kwargs, ok) # loads evs"
| "loads (ChatCompletion kwargs # evs) = loads evs"

fun invocations :: "event list \<Rightarrow> chat_kwargs list" where
  "invocations [] = []"
| "invocations (LlamaInit kwargs ok # evs) = invocations evs"
| "invocations (ChatCompletion kwargs # evs) = kwargs # invocations evs"

text \<open>
  A life of one \<^verbatim>\<open>LLMModel\<close> object: the calls of its two methods, one after the other,
  whatever each returns or raises.
\<close>

datatype method_call = Start | Call "request list"

fun run_method ::
  "('m, 'w) runtime \<Rightarrow> method_call \<Rightarrow> 'm LLMModel \<times> 'w world \<Rightarrow> 'm LLMModel \<times> 'w world"
where
  "run_method rt Start (self, w) = snd (start rt self w)"
| "run_method rt (Call requests) (self, w) = snd (LLMModel_call rt self requests w)"

fun run_methods ::
  "('m, 'w) runtime \<Rightarrow> method_call list \<Rightarrow> 'm LLMModel \<times> 'w world \<Rightarrow> 'm LLMModel \<times> 'w world"
where
  "run_methods rt [] s = s"
| "run_methods rt (c # cs) s = run_methods rt cs (run_method rt c s)"

text \<open>
  What stays true of an \<^verbatim>\<open>LLMModel\<close> built with \<open>path\<close>, \<open>ctx\<close> and \<open>layers\<close>
  through its life: its three parameters, that every construction of \<^verbatim>\<open>Llama\<close> used
  them, and that no model has been loaded while \<^verbatim>\<open>self.model\<close> is \<^verbatim>\<open>None\<close> and at
  most one otherwise.
\<close>

definition load_invariant :: "string \<Rightarrow> int \<Rightarrow> int \<Rightarrow> 'm LLMModel \<times> 'w world \<Rightarrow> bool" where
  "load_invariant path ctx layers s =
     (case s of (self, w) \<Rightarrow>
        model_path self = path \<and> n_ctx self = ctx \<and> n_gpu_layers self = layers \<and>
        (\<forall>(kwargs, ok)\<in>set (loads (trace w)).
           kw_model_path kwargs = path \<and> kw_n_ctx kwargs = ctx \<and> kw_n_gpu_layers kwargs = layers) \<and>
        length (filter snd (loads (trace w))) \<le> (case model self of None \<Rightarrow> 0 | Some m \<Rightarrow> 1))"

section \<open>A concrete runtime and concrete requests\<close>

text \<open>
  A runtime whose model answers every invocation with the same well-formed response, except
  that it rejects \<^verbatim>\<open>max_tokens=0\<close>; the outside state counts the calls. A second runtime
  has no model file to load.
\<close>

definition example_response :: pyval where
  "example_response =
     PDict [(''choices'', PList [PDict [(''message'',
               PDict [(''role'', PStr ''assistant''), (''content'', PStr ''ok'')])]]),
            (''usage'', PDict [(''total_tokens'', PInt 7)])]"

definition example_runtime :: "(unit, nat) runtime" where
  "example_runtime =
     \<lparr>Llama = (\<lambda>kwargs n. (Inr (), Suc n)),
      create_chat_completion = (\<lambda>m kwargs n.
         (if kw_max_tokens kwargs = PInt 0
          then Inl (Exn ''ValueError'' ''max_tokens must be positive'')
          else Inr example_response, Suc n)),
      environ = (\<lambda>n. Map.empty),
      py_int = (\<lambda>s. if s = ''4'' then Inr 4
                     else Inl (Exn ''ValueError'' ''invalid literal for int()''))\<rparr>"

definition broken_runtime :: "(unit, nat) runtime" where
  "broken_runtime =
     example_runtime\<lparr>Llama := (\<lambda>kwargs n.
        (Inl (Exn ''ValueError'' (''Model path does not exist: '' @ kw_model_path kwargs)), n))\<rparr>"

definition user_message :: pyval where
  "user_message = PDict [(''role'', PStr ''user''), (''content'', PStr ''hi'')]"

definition request_A :: request where
  "request_A = [''request_id'' \<mapsto> PStr ''A'', ''messages'' \<mapsto> PList [user_message]]"

definition request_B :: request where
  "request_B = [''request_id'' \<mapsto> PStr ''B'', ''messages'' \<mapsto> PList [],
                ''max_tokens'' \<mapsto> PInt 64]"

definition request_C :: request where
  "request_C = [''messages'' \<mapsto> PList [user_message], ''max_tokens'' \<mapsto> PInt 0,
                ''tools'' \<mapsto> PList [PDict [(''type'', PStr ''function'')]]]"

definition example_model :: "unit LLMModel" where
  "example_model = LLMModel_init ''/models/Qwen3-1.7B-Q4_K_M.gguf'' 8192 0"

definition example_service :: "unit LLMService" where
  "example_service = LLMService_init ''/models/Qwen3-1.7B-Q4_K_M.gguf'' 8192 0"

definition example_world :: "nat world" where
  "example_world = \<lparr>ext = 0, trace = []\<rparr>"

definition example_batch :: "request list" where
  "example_batch = [request_A, request_B, request_C]"

text \<open>A batch whose first request the model rejects.\<close>

definition example_batch2 :: "request list" where
  "example_batch2 = [request_C, request_A]"

text \<open>The example model and world once the model is loaded.\<close>

definition loaded_model :: "unit LLMModel" where
  "loaded_model = example_model\<lparr>model := Some ()\<rparr>"

definition loaded_world :: "nat world" where
  "loaded_world =
     \<lparr>ext = 1,
      trace = [LlamaInit \<lparr>kw_model_path = ''/models/Qwen3-1.7B-Q4_K_M.gguf'', kw_n_ctx = 8192,
                          kw_n_gpu_layers = 0, kw_n_threads = 4, kw_verbose = False\<rparr> True]\<rparr>"

text \<open>What the example model returns for the example batch.\<close>

definition example_results :: "pydict list" where
  "example_results =
     [[(''request_id'', PStr ''A''), (''success'', PBool True), (''error'', PNone),
       (''content'', PStr ''ok''), (''tool_calls'', PNone),
       (''usage'', PDict [(''total_tokens'', PInt 7)])],
      [(''request_id'', PStr ''B''), (''success'', PBool False),
       (''error'', PStr ''empty_messages''), (''content'', PNone), (''tool_calls'', PNone)],
      [(''request_id'', PStr ''unknown''), (''success'', PBool False),
       (''error'', PStr ''max_tokens must be positive''), (''content'', PNone),
       (''tool_calls'', PNone)]]"

section \<open>One request\<close>

lemma success_result_shape:
  assumes "success_result rid response = Inr r"
  shows "\<exists>kvs content tool_calls. response = PDict kvs \<and>
           r = [(''request_id'', rid), (''success'', PBool True), (''error'', PNone),
                (''content'', content), (''tool_calls'', tool_calls),
                (''usage'', (case map_of kvs ''usage'' of None \<Rightarrow> PDict [] | Some u \<Rightarrow> u))]"
proof (cases response)
  case (PDict kvs)
  with assms show ?thesis
    by (auto simp: success_result_def split: sum.splits option.splits)
qed (use assms in \<open>simp_all add: success_result_def\<close>)

lemma process_request_total:
  assumes "has_len (request_get request ''messages'' (PList []))"
  shows "\<exists>r. fst (process_request rt mdl request w) = Inr r"
  using assms
  by (auto simp: process_request_def has_len_def Let_def
           split: sum.splits option.splits prod.splits)

lemma process_request_escapes:
  assumes "\<not> has_len (request_get request ''messages'' (PList []))"
  shows "process_request rt mdl request w =
           (Inl (no_len (request_get request ''messages'' (PList []))), w)"
  using assms
  by (cases "request_get request ''messages'' (PList [])")
     (auto simp: process_request_def has_len_def Let_def)

lemma process_request_empty:
  assumes "has_len (request_get request ''messages'' (PList []))"
    and "\<not> truthy (request_get request ''messages'' (PList []))"
  shows "process_request rt mdl request w =
           (Inr (failure_result (request_get request ''request_id'' (PStr ''unknown''))
                   ''empty_messages''), w)"
  using assms
  by (auto simp: process_request_def has_len_def Let_def split: sum.splits)

lemma process_request_world:
  assumes "has_len (request_get request ''messages'' (PList []))"
    and "truthy (request_get request ''messages'' (PList []))"
  shows "snd (process_request rt (Some m) request w) =
           \<lparr>ext = snd (create_chat_completion rt m (chat_kwargs_of request) (ext w)),
            trace = trace w @ [ChatCompletion (chat_kwargs_of request)]\<rparr>"
  using assms
  by (auto simp: process_request_def has_len_def Let_def split: sum.splits prod.splits)

lemma process_request_raises:
  assumes "has_len (request_get request ''messages'' (PList []))"
    and "truthy (request_get request ''messages'' (PList []))"
    and "fst (create_chat_completion rt m (chat_kwargs_of request) (ext w)) = Inl e"
  shows "fst (process_request rt (Some m) request w) =
           Inr (failure_result (request_get request ''request_id'' (PStr ''unknown''))
                  (exn_str e))"
  using assms
  by (auto simp: process_request_def has_len_def Let_def split: sum.splits prod.splits)

lemma process_request_invoke:
  assumes "has_len (request_get request ''messages'' (PList []))"
    and "truthy (request_get request ''messages'' (PList []))"
  shows "fst (process_request rt (Some m) request w) =
           Inr (case fst (create_chat_completion rt m (chat_kwargs_of request) (ext w)) of
                  Inl e \<Rightarrow>
                    failure_result (request_get request ''request_id'' (PStr ''unknown''))
                      (exn_str e)
                | Inr response \<Rightarrow>
                    (case success_result
                            (request_get request ''request_id'' (PStr ''unknown'')) response of
                       Inl e \<Rightarrow>
                         failure_result (request_get request ''request_id'' (PStr ''unknown''))
                           (exn_str e)
                     | Inr result \<Rightarrow> result))"
  using assms
  by (auto simp: process_request_def has_len_def Let_def split: sum.splits prod.splits)

lemma process_request_shape:
  assumes "fst (process_request rt mdl request w) = Inr r"
  shows "(\<exists>err. r = failure_result (request_get request ''request_id'' (PStr ''unknown'')) err) \<or>
         (\<exists>m kvs x content tool_calls.
            mdl = Some m \<and>
            create_chat_completion rt m (chat_kwargs_of request) (ext w) = (Inr (PDict kvs), x) \<and>
            r = [(''request_id'', request_get request ''request_id'' (PStr ''unknown'')),
                 (''success'', PBool True), (''error'', PNone),
                 (''content'', content), (''tool_calls'', tool_calls),
                 (''usage'', (case map_of kvs ''usage'' of None \<Rightarrow> PDict [] | Some u \<Rightarrow> u))])"
  using assms
  by (auto simp: process_request_def Let_def
           split: sum.splits option.splits prod.splits if_splits
           dest!: success_result_shape)

section \<open>The loop\<close>

text \<open>The world the loop leaves does not depend on the results collected before.\<close>

lemma process_requests_world_acc:
  "snd (process_requests rt mdl reqs acc w) = snd (process_requests rt mdl reqs acc' w)"
proof (induction reqs arbitrary: acc acc' w)
  case Nil
  show ?case by simp
next
  case (Cons r reqs)
  show ?case
  proof (cases "process_request rt mdl r w")
    case (Pair out w1)
    then show ?thesis
      using Cons.IH by (cases out) auto
  qed
qed

lemma slot_world_0: "slot_world rt mdl reqs 0 w = w"
  by (simp add: slot_world_def)

lemma slot_world_Cons_Suc:
  assumes "process_request rt mdl r w = (Inr x, w1)"
  shows "slot_world rt mdl (r # reqs) (Suc i) w = slot_world rt mdl reqs i w1"
  using assms process_requests_world_acc [of rt mdl "take i reqs" "[x]" w1 "[]"]
  by (simp add: slot_world_def)

text \<open>
  When every \<^verbatim>\<open>messages\<close> has a length, the loop runs to its end: it appends one result
  per request, and the result at position \<open>i\<close> is the one the body produces for request \<open>i\<close>
  in the world the loop has reached there.
\<close>

lemma process_requests_char:
  assumes "\<forall>r\<in>set reqs. has_len (request_get r ''messages'' (PList []))"
  shows "\<exists>rs. process_requests rt mdl reqs acc w =
                 (Inr (acc @ rs), slot_world rt mdl reqs (length reqs) w) \<and>
              length rs = length reqs \<and>
              (\<forall>i<length reqs.
                 process_request rt mdl (reqs ! i) (slot_world rt mdl reqs i w) =
                   (Inr (rs ! i), slot_world rt mdl reqs (Suc i) w))"
  using assms
proof (induction reqs arbitrary: acc w)
  case Nil
  show ?case by (simp add: slot_world_0)
next
  case (Cons r reqs)
  from Cons.prems process_request_total [of r rt mdl w]
  obtain x w1 where step: "process_request rt mdl r w = (Inr x, w1)"
    by (cases "process_request rt mdl r w") auto
  from Cons.prems have "\<forall>r\<in>set reqs. has_len (request_get r ''messages'' (PList []))"
    by simp
  from Cons.IH [OF this, of "acc @ [x]" w1]
  obtain rs where rs:
    "process_requests rt mdl reqs (acc @ [x]) w1 =
       (Inr ((acc @ [x]) @ rs), slot_world rt mdl reqs (length reqs) w1)"
    "length rs = length reqs"
    "\<forall>i<length reqs.
       process_request rt mdl (reqs ! i) (slot_world rt mdl reqs i w1) =
         (Inr (rs ! i), slot_world rt mdl reqs (Suc i) w1)"
    by blast
  have sw: "\<And>i. slot_world rt mdl (r # reqs) (Suc i) w = slot_world rt mdl reqs i w1"
    by (rule slot_world_Cons_Suc [OF step])
  have "process_requests rt mdl (r # reqs) acc w =
          (Inr (acc @ (x # rs)), slot_world rt mdl (r # reqs) (length (r # reqs)) w)"
    using step rs(1) by (simp add: sw)
  moreover have "length (x # rs) = length (r # reqs)"
    using rs(2) by simp
  moreover have "\<forall>i<length (r # reqs).
       process_request rt mdl ((r # reqs) ! i) (slot_world rt mdl (r # reqs) i w) =
         (Inr ((x # rs) ! i), slot_world rt mdl (r # reqs) (Suc i) w)"
  proof (intro allI impI)
    fix i assume "i < length (r # reqs)"
    show "process_request rt mdl ((r # reqs) ! i) (slot_world rt mdl (r # reqs) i w) =
            (Inr ((x # rs) ! i), slot_world rt mdl (r # reqs) (Suc i) w)"
    proof (cases i)
      case 0
      then show ?thesis using step by (simp add: slot_world_0 sw)
    next
      case (Suc j)
      with \<open>i < length (r # reqs)\<close> have "j < length reqs" by simp
      with rs(3) Suc show ?thesis by (simp add: sw)
    qed
  qed
  ultimately show ?case by blast
qed

section \<open>Loading and the whole call\<close>

lemma start_cases:
  "(\<exists>e w'. start rt self w = (Inl e, self, w') \<and> model self = None) \<or>
   (\<exists>m w'. start rt self w = (Inr (), self\<lparr>model := Some m\<rparr>, w'))"
  by (cases self) (auto simp: start_def Let_def split: option.splits sum.splits prod.splits)

lemma start_loaded:
  assumes "start rt self w = (Inr u, self', w')"
  shows "\<exists>m. model self' = Some m"
  using assms
  by (auto simp: start_def Let_def split: option.splits sum.splits prod.splits)

lemma LLMModel_call_char:
  assumes "start rt self w = (Inr u, self', w')"
    and "\<forall>r\<in>set requests. has_len (request_get r ''messages'' (PList []))"
  shows "\<exists>results.
           LLMModel_call rt self requests w =
             (Inr results, self', slot_world rt (model self') requests (length requests) w') \<and>
           length results = length requests \<and>
           (\<forall>i<length requests.
              process_request rt (model self') (requests ! i)
                  (slot_world rt (model self') requests i w') =
                (Inr (results ! i), slot_world rt (model self') requests (Suc i) w'))"
proof -
  from process_requests_char [OF assms(2), of rt "model self'" "[]" w']
  obtain rs where rs:
    "process_requests rt (model self') requests [] w' =
       (Inr rs, slot_world rt (model self') requests (length requests) w')"
    "length rs = length requests"
    "\<forall>i<length requests.
       process_request rt (model self') (requests ! i)
           (slot_world rt (model self') requests i w') =
         (Inr (rs ! i), slot_world rt (model self') requests (Suc i) w')"
    by auto
  have "LLMModel_call rt self requests w =
          (Inr rs, self', slot_world rt (model self') requests (length requests) w')"
    using assms(1) rs(1) by (simp add: LLMModel_call_def)
  with rs(2,3) show ?thesis by blast
qed

text \<open>A property of every result the loop body produces holds of every result returned.\<close>

lemma process_requests_all:
  assumes "\<forall>r\<in>set acc. P r"
    and "\<And>req w r. fst (process_request rt mdl req w) = Inr r \<Longrightarrow> P r"
    and "fst (process_requests rt mdl reqs acc w) = Inr rs"
  shows "\<forall>r\<in>set rs. P r"
  using assms(1,3)
proof (induction reqs arbitrary: acc w)
  case Nil
  then show ?case by simp
next
  case (Cons req reqs)
  show ?case
  proof (cases "process_request rt mdl req w")
    case (Pair out w1)
    show ?thesis
    proof (cases out)
      case (Inl e)
      with Pair Cons.prems(2) show ?thesis by simp
    next
      case (Inr x)
      with Pair assms(2) [of req w x] have "P x" by simp
      with Cons.prems(1) have "\<forall>r\<in>set (acc @ [x]). P r" by simp
      moreover from Pair Inr Cons.prems(2)
      have "fst (process_requests rt mdl reqs (acc @ [x]) w1) = Inr rs" by simp
      ultimately show ?thesis by (rule Cons.IH)
    qed
  qed
qed

lemma LLMModel_call_all:
  assumes "\<And>mdl req w r. fst (process_request rt mdl req w) = Inr r \<Longrightarrow> P r"
    and "fst (LLMModel_call rt self requests w) = Inr results"
  shows "\<forall>r\<in>set results. P r"
proof (cases "start rt self w")
  case (fields out self' w')
  show ?thesis
  proof (cases out)
    case (Inl e)
    with fields assms(2) show ?thesis by (simp add: LLMModel_call_def)
  next
    case (Inr u)
    with fields assms(2)
    have loop: "fst (process_requests rt (model self') requests [] w') = Inr results"
      by (simp add: LLMModel_call_def split: prod.splits)
    from process_requests_all [where P = P and acc = "[]", OF _ assms(1) loop]
    show ?thesis by simp
  qed
qed

section \<open>What the trace records\<close>

lemma loads_append: "loads (xs @ ys) = loads xs @ loads ys"
  by (induction xs rule: loads.induct) simp_all

lemma process_request_loads:
  "loads (trace (snd (process_request rt mdl request w))) = loads (trace w)"
  by (simp add: process_request_def Let_def loads_append
           split: sum.splits option.splits prod.splits)

lemma process_requests_loads:
  "loads (trace (snd (process_requests rt mdl reqs acc w))) = loads (trace w)"
proof (induction reqs arbitrary: acc w)
  case Nil
  show ?case by simp
next
  case (Cons r reqs)
  show ?case
  proof (cases "process_request rt mdl r w")
    case (Pair out w1)
    with process_request_loads [of rt mdl r w] have "loads (trace w1) = loads (trace w)"
      by simp
    with Pair Cons.IH show ?thesis by (cases out) simp_all
  qed
qed

lemma start_loaded_noop: "model self = Some m \<Longrightarrow> start rt self w = (Inr (), self, w)"
  by (simp add: start_def)

lemma start_unloaded:
  assumes "model self = None"
    and "py_int rt (case environ rt (ext w) ''LLAMA_N_THREADS'' of None \<Rightarrow> ''4'' | Some s \<Rightarrow> s) =
           Inr threads"
  shows "\<exists>out self' w' ok.
           start rt self w = (out, self', w') \<and>
           loads (trace w') =
             loads (trace w) @
               [(\<lparr>kw_model_path = model_path self, kw_n_ctx = n_ctx self,
                  kw_n_gpu_layers = n_gpu_layers self, kw_n_threads = threads,
                  kw_verbose = False\<rparr>, ok)] \<and>
           (ok \<longleftrightarrow> model self' \<noteq> None) \<and> (ok \<longleftrightarrow> out = Inr ())"
  using assms
  by (auto simp: start_def Let_def loads_append split: prod.splits sum.splits)

lemma start_invariant:
  assumes "load_invariant path ctx layers (self, w)"
  shows "load_invariant path ctx layers (snd (start rt self w))"
  using assms
  by (auto simp: load_invariant_def start_def Let_def loads_append
           split: option.splits sum.splits prod.splits)

lemma LLMModel_call_snd:
  "snd (LLMModel_call rt self requests w) =
     (case start rt self w of
        (Inl e, self', w') \<Rightarrow> (self', w')
      | (Inr u, self', w') \<Rightarrow> (self', snd (process_requests rt (model self') requests [] w')))"
  by (simp add: LLMModel_call_def split: prod.splits sum.splits)

lemma LLMModel_call_invariant:
  assumes "load_invariant path ctx layers (self, w)"
  shows "load_invariant path ctx layers (snd (LLMModel_call rt self requests w))"
proof (cases "start rt self w")
  case (fields out self' w')
  with start_invariant [OF assms, of rt]
  have inv: "load_invariant path ctx layers (self', w')" by simp
  show ?thesis
  proof (cases out)
    case (Inl e)
    with fields inv show ?thesis by (simp add: LLMModel_call_snd)
  next
    case (Inr u)
    with fields inv process_requests_loads [of rt "model self'" requests "[]" w']
    show ?thesis by (simp add: LLMModel_call_snd load_invariant_def)
  qed
qed

lemma run_method_invariant:
  assumes "load_invariant path ctx layers s"
  shows "load_invariant path ctx layers (run_method rt c s)"
proof (cases s)
  case (Pair self w)
  with assms show ?thesis
    by (cases c) (simp_all add: start_invariant LLMModel_call_invariant)
qed

lemma run_methods_invariant:
  assumes "load_invariant path ctx layers s"
  shows "load_invariant path ctx layers (run_methods rt cs s)"
  using assms
  by (induction cs arbitrary: s) (simp_all add: run_method_invariant)

lemma init_invariant:
  assumes "loads (trace w) = []"
  shows "load_invariant path ctx layers (LLMModel_init path ctx layers, w)"
  using assms by (simp add: load_invariant_def LLMModel_init_def)

lemma invocations_append: "invocations (xs @ ys) = invocations xs @ invocations ys"
  by (induction xs rule: invocations.induct) simp_all

lemma start_invocations: "invocations (trace (snd (snd (start rt self w)))) = invocations (trace w)"
  by (simp add: start_def Let_def invocations_append split: option.splits sum.splits prod.splits)

section \<open>The examples, evaluated\<close>

lemmas example_defs = example_runtime_def example_model_def example_world_def request_A_def
  request_B_def request_C_def user_message_def example_response_def LLMModel_init_def
  example_batch_def example_batch2_def loaded_model_def loaded_world_def

lemma example_start:
  "start example_runtime example_model example_world = (Inr (), loaded_model, loaded_world)"
  by (simp add: start_def example_defs)

lemma example_has_len:
  "\<forall>r\<in>set example_batch. has_len (request_get r ''messages'' (PList []))"
  by (simp add: has_len_def request_get_def example_defs)

lemma example_loaded: "model loaded_model = Some ()"
  by (simp add: loaded_model_def)

lemma example_has_len2:
  "\<forall>r\<in>set example_batch2. has_len (request_get r ''messages'' (PList []))"
  by (simp add: has_len_def request_get_def example_defs example_batch2_def)

lemma example_call:
  "fst (LLMModel_call example_runtime example_model example_batch example_world) =
     Inr example_results"
  by (simp add: LLMModel_call_def start_def example_defs process_request_def request_get_def
        chat_kwargs_of_def success_result_def len_or_0_def failure_result_def
        example_results_def)

lemmas service_defs = example_service_def LLMService_init_def LLMModel_init_def
  broken_runtime_def example_runtime_def example_world_def

section \<open>Properties of the model adapter\<close>

text \<open>
  C1. Whenever the model is loaded (or loads) and every request's \<^verbatim>\<open>messages\<close> is a
  sequence, \<^verbatim>\<open>LLMModel.__call__\<close> returns a list with exactly one result per request of
  the batch, the empty batch included, and the result at each position is the one the loop
  body produces for the request at that position.
\<close>

theorem infer_length_and_order:
  assumes "start rt self w = (Inr (), self', w')"
    and "\<forall>r\<in>set requests. has_len (request_get r ''messages'' (PList []))"
  shows "\<exists>results w''.
           LLMModel_call rt self requests w = (Inr results, self', w'') \<and>
           length results = length requests \<and>
           (\<forall>i<length requests.
              fst (process_request rt (model self') (requests ! i)
                     (slot_world rt (model self') requests i w')) = Inr (results ! i))"
proof -
  from LLMModel_call_char [OF assms]
  obtain results where
    "LLMModel_call rt self requests w =
       (Inr results, self', slot_world rt (model self') requests (length requests) w')"
    "length results = length requests"
    "\<forall>i<length requests.
       process_request rt (model self') (requests ! i)
           (slot_world rt (model self') requests i w') =
         (Inr (results ! i), slot_world rt (model self') requests (Suc i) w')"
    by blast
  then show ?thesis by auto
qed

theorem infer_length_and_order_witness:
  "start example_runtime example_model example_world = (Inr (), loaded_model, loaded_world) \<and>
   has_len (request_get request_A ''messages'' (PList [])) \<and>
   has_len (request_get request_B ''messages'' (PList [])) \<and>
   has_len (request_get request_C ''messages'' (PList [])) \<and>
   (\<exists>results w''.
      LLMModel_call example_runtime example_model example_batch example_world =
        (Inr results, loaded_model, w'') \<and>
      length results = 3 \<and>
      fst (process_request example_runtime (Some ()) request_B
             (slot_world example_runtime (Some ()) example_batch 1 loaded_world)) =
        Inr (results ! 1))"
proof -
  from infer_length_and_order [OF example_start example_has_len]
  obtain results w'' where r:
    "LLMModel_call example_runtime example_model example_batch example_world =
        (Inr results, loaded_model, w'')"
    "length results = length example_batch"
    "\<forall>i<length example_batch.
       fst (process_request example_runtime (model loaded_model) (example_batch ! i)
              (slot_world example_runtime (model loaded_model) example_batch i loaded_world)) =
         Inr (results ! i)"
    by blast
  have "length example_batch = 3" "example_batch ! 1 = request_B"
    by (simp_all add: example_batch_def)
  with r(3) [rule_format, of 1] r(1,2) example_start example_has_len example_loaded
  show ?thesis by (simp add: example_batch_def)
qed

text \<open>
  C2. When the model invocation for a request raises, the exception does not leave
  \<^verbatim>\<open>__call__\<close>: the call still returns one result per request, the result at that
  request's position is the failure result carrying \<^verbatim>\<open>str(e)\<close> as its error, and every
  later request is processed by the loop body as usual.
\<close>

theorem model_exception_isolated:
  assumes "start rt self w = (Inr (), self', w')"
    and "model self' = Some m"
    and "\<forall>r\<in>set requests. has_len (request_get r ''messages'' (PList []))"
    and "i < length requests"
    and "truthy (request_get (requests ! i) ''messages'' (PList []))"
    and "fst (create_chat_completion rt m (chat_kwargs_of (requests ! i))
                (ext (slot_world rt (Some m) requests i w'))) = Inl e"
  shows "\<exists>results w''.
           LLMModel_call rt self requests w = (Inr results, self', w'') \<and>
           length results = length requests \<and>
           results ! i =
             [(''request_id'', request_get (requests ! i) ''request_id'' (PStr ''unknown'')),
              (''success'', PBool False), (''error'', PStr (exn_str e)),
              (''content'', PNone), (''tool_calls'', PNone)] \<and>
           (\<forall>j. i < j \<and> j < length requests \<longrightarrow>
              fst (process_request rt (Some m) (requests ! j)
                     (slot_world rt (Some m) requests j w')) = Inr (results ! j))"
proof -
  from LLMModel_call_char [OF assms(1,3)] assms(2)
  obtain results where r:
    "LLMModel_call rt self requests w =
       (Inr results, self', slot_world rt (Some m) requests (length requests) w')"
    "length results = length requests"
    "\<forall>i<length requests.
       process_request rt (Some m) (requests ! i) (slot_world rt (Some m) requests i w') =
         (Inr (results ! i), slot_world rt (Some m) requests (Suc i) w')"
    by auto
  from assms(3,4) have len: "has_len (request_get (requests ! i) ''messages'' (PList []))"
    by simp
  from r(3) assms(4) process_request_raises [OF len assms(5,6)]
  have "results ! i =
          failure_result (request_get (requests ! i) ''request_id'' (PStr ''unknown''))
            (exn_str e)"
    by simp
  with r show ?thesis by (auto simp: failure_result_def)
qed

theorem model_exception_isolated_witness:
  "truthy (request_get request_C ''messages'' (PList [])) \<and>
   fst (create_chat_completion example_runtime () (chat_kwargs_of request_C) (ext loaded_world)) =
     Inl (Exn ''ValueError'' ''max_tokens must be positive'') \<and>
   (\<exists>results w''.
      LLMModel_call example_runtime example_model example_batch2 example_world =
        (Inr results, loaded_model, w'') \<and>
      length results = 2 \<and>
      results ! 0 =
        [(''request_id'', PStr ''unknown''), (''success'', PBool False),
         (''error'', PStr ''max_tokens must be positive''), (''content'', PNone),
         (''tool_calls'', PNone)] \<and>
      fst (process_request example_runtime (Some ()) request_A
             (slot_world example_runtime (Some ()) example_batch2 1 loaded_world)) =
        Inr (results ! 1))"
proof -
  have i: "0 < length example_batch2" and at0: "example_batch2 ! 0 = request_C"
    and at1: "example_batch2 ! Suc 0 = request_A" and n: "length example_batch2 = 2"
    by (simp_all add: example_batch2_def)
  have t: "truthy (request_get (example_batch2 ! 0) ''messages'' (PList []))"
    by (simp add: at0 request_get_def request_C_def)
  have e: "fst (create_chat_completion example_runtime ()
                  (chat_kwargs_of (example_batch2 ! 0))
                  (ext (slot_world example_runtime (Some ()) example_batch2 0 loaded_world))) =
             Inl (Exn ''ValueError'' ''max_tokens must be positive'')"
    by (simp add: at0 slot_world_0 example_runtime_def chat_kwargs_of_def request_get_def
          request_C_def Let_def)
  from model_exception_isolated [OF example_start example_loaded example_has_len2 i t e]
  obtain results w'' where r:
    "LLMModel_call example_runtime example_model example_batch2 example_world =
        (Inr results, loaded_model, w'')"
    "length results = length example_batch2"
    "results ! 0 =
       [(''request_id'', request_get (example_batch2 ! 0) ''request_id'' (PStr ''unknown'')),
        (''success'', PBool False),
        (''error'', PStr (exn_str (Exn ''ValueError'' ''max_tokens must be positive''))),
        (''content'', PNone), (''tool_calls'', PNone)]"
    "\<forall>j. 0 < j \<and> j < length example_batch2 \<longrightarrow>
       fst (process_request example_runtime (Some ()) (example_batch2 ! j)
              (slot_world example_runtime (Some ()) example_batch2 j loaded_world)) =
         Inr (results ! j)"
    by blast
  from r(4) [rule_format, of 1] have
    "fst (process_request example_runtime (Some ()) request_A
             (slot_world example_runtime (Some ()) example_batch2 1 loaded_world)) =
        Inr (results ! 1)"
    by (simp add: n at1)
  moreover from r(3) have "results ! 0 =
        [(''request_id'', PStr ''unknown''), (''success'', PBool False),
         (''error'', PStr ''max_tokens must be positive''), (''content'', PNone),
         (''tool_calls'', PNone)]"
    by (simp add: at0 request_get_def request_C_def)
  moreover from t e have "truthy (request_get request_C ''messages'' (PList []))"
    and "fst (create_chat_completion example_runtime () (chat_kwargs_of request_C)
                (ext loaded_world)) = Inl (Exn ''ValueError'' ''max_tokens must be positive'')"
    by (simp_all add: at0 slot_world_0)
  ultimately show ?thesis using r(1,2) n by auto
qed

text \<open>
  C3. A request whose \<^verbatim>\<open>messages\<close> is the empty list, or that has none, gets the
  \<^verbatim>\<open>empty_messages\<close> failure result at its own position, whatever its other fields are,
  and the world is the same before and after it: nothing is called for it.
\<close>

theorem empty_messages_result:
  assumes "start rt self w = (Inr (), self', w')"
    and "\<forall>r\<in>set requests. has_len (request_get r ''messages'' (PList []))"
    and "i < length requests"
    and "request_get (requests ! i) ''messages'' (PList []) = PList []"
  shows "\<exists>results w''.
           LLMModel_call rt self requests w = (Inr results, self', w'') \<and>
           results ! i =
             [(''request_id'', request_get (requests ! i) ''request_id'' (PStr ''unknown'')),
              (''success'', PBool False), (''error'', PStr ''empty_messages''),
              (''content'', PNone), (''tool_calls'', PNone)] \<and>
           slot_world rt (model self') requests (Suc i) w' =
             slot_world rt (model self') requests i w'"
proof -
  from LLMModel_call_char [OF assms(1,2)]
  obtain results where r:
    "LLMModel_call rt self requests w =
       (Inr results, self', slot_world rt (model self') requests (length requests) w')"
    "\<forall>i<length requests.
       process_request rt (model self') (requests ! i)
           (slot_world rt (model self') requests i w') =
         (Inr (results ! i), slot_world rt (model self') requests (Suc i) w')"
    by auto
  from assms(4) have "has_len (request_get (requests ! i) ''messages'' (PList []))"
    and "\<not> truthy (request_get (requests ! i) ''messages'' (PList []))"
    by (simp_all add: has_len_def)
  from process_request_empty
         [OF this, of rt "model self'" "slot_world rt (model self') requests i w'"]
       r(2) [rule_format, OF assms(3)]
  have "results ! i =
          failure_result (request_get (requests ! i) ''request_id'' (PStr ''unknown''))
            ''empty_messages''"
    and "slot_world rt (model self') requests (Suc i) w' =
           slot_world rt (model self') requests i w'"
    by simp_all
  with r(1) show ?thesis by (auto simp: failure_result_def)
qed

theorem empty_messages_result_witness:
  "request_get request_B ''messages'' (PList []) = PList [] \<and>
   (\<exists>results w''.
      LLMModel_call example_runtime example_model example_batch example_world =
        (Inr results, loaded_model, w'') \<and>
      results ! 1 =
        [(''request_id'', PStr ''B''), (''success'', PBool False),
         (''error'', PStr ''empty_messages''), (''content'', PNone), (''tool_calls'', PNone)] \<and>
      slot_world example_runtime (Some ()) example_batch 2 loaded_world =
        slot_world example_runtime (Some ()) example_batch 1 loaded_world)"
proof -
  have i: "1 < length example_batch" and at1: "example_batch ! Suc 0 = request_B"
    by (simp_all add: example_batch_def)
  have b: "request_get request_B ''messages'' (PList []) = PList []"
    by (simp add: request_get_def request_B_def)
  then have e: "request_get (example_batch ! 1) ''messages'' (PList []) = PList []"
    by (simp add: at1)
  from empty_messages_result [OF example_start example_has_len i e] b
  show ?thesis
    by (simp add: at1 request_get_def request_B_def example_loaded numeral_2_eq_2)
qed

text \<open>
  C6. Every result \<^verbatim>\<open>__call__\<close> returns has a boolean \<^verbatim>\<open>success\<close>; a successful
  one has \<^verbatim>\<open>error = None\<close>, a failed one has \<^verbatim>\<open>content = None\<close> and
  \<^verbatim>\<open>tool_calls = None\<close>.
\<close>

theorem result_invariant:
  assumes "fst (LLMModel_call rt self requests w) = Inr results"
    and "r \<in> set results"
  shows "(map_of r ''success'' = Some (PBool True) \<or> map_of r ''success'' = Some (PBool False)) \<and>
         (map_of r ''success'' = Some (PBool True) \<longrightarrow> map_of r ''error'' = Some PNone) \<and>
         (map_of r ''success'' = Some (PBool False) \<longrightarrow>
            map_of r ''content'' = Some PNone \<and> map_of r ''tool_calls'' = Some PNone)"
proof -
  let ?P = "\<lambda>r. (map_of r ''success'' = Some (PBool True) \<or>
                  map_of r ''success'' = Some (PBool False)) \<and>
         (map_of r ''success'' = Some (PBool True) \<longrightarrow> map_of r ''error'' = Some PNone) \<and>
         (map_of r ''success'' = Some (PBool False) \<longrightarrow>
            map_of r ''content'' = Some PNone \<and> map_of r ''tool_calls'' = Some PNone)"
  have "\<forall>r\<in>set results. ?P r"
  proof (rule LLMModel_call_all [where P = ?P, OF _ assms(1)])
    fix mdl req v x
    assume "fst (process_request rt mdl req v) = Inr x"
    from process_request_shape [OF this] show "?P x"
      by (auto simp: failure_result_def)
  qed
  with assms(2) show ?thesis by blast
qed


theorem result_invariant_witness:
  "fst (LLMModel_call example_runtime example_model example_batch example_world) =
     Inr example_results \<and>
   map_of (example_results ! 0) ''success'' = Some (PBool True) \<and>
   map_of (example_results ! 0) ''error'' = Some PNone \<and>
   map_of (example_results ! 2) ''success'' = Some (PBool False) \<and>
   map_of (example_results ! 2) ''content'' = Some PNone \<and>
   map_of (example_results ! 2) ''tool_calls'' = Some PNone"
proof -
  have m: "example_results ! 0 \<in> set example_results" "example_results ! 2 \<in> set example_results"
    by (simp_all add: example_results_def)
  have s: "map_of (example_results ! 0) ''success'' = Some (PBool True)"
    "map_of (example_results ! 2) ''success'' = Some (PBool False)"
    by (simp_all add: example_results_def)
  from result_invariant [OF example_call m(1)] result_invariant [OF example_call m(2)] s
    example_call
  show ?thesis by simp
qed


text \<open>
  C8. For a request with non-empty \<^verbatim>\<open>messages\<close> the model is invoked exactly once:
  \<^verbatim>\<open>create_chat_completion\<close> is applied to the keyword arguments in the world the loop
  has reached, the world after the slot is the one that call leaves, and the result at the
  slot is built from what the call returned or raised. The arguments are the request's own
  \<^verbatim>\<open>messages\<close>, \<^verbatim>\<open>max_tokens\<close>, \<^verbatim>\<open>temperature\<close>, \<^verbatim>\<open>tools\<close> and
  \<^verbatim>\<open>tool_choice\<close>; the JSON response format is requested exactly when \<^verbatim>\<open>tools\<close>
  is present and true, so not for a missing, null or empty one.
\<close>

theorem invocation_arguments:
  assumes "start rt self w = (Inr (), self', w')"
    and "model self' = Some m"
    and "\<forall>r\<in>set requests. has_len (request_get r ''messages'' (PList []))"
    and "i < length requests"
    and "truthy (request_get (requests ! i) ''messages'' (PList []))"
  shows "\<exists>kwargs results w''.
           LLMModel_call rt self requests w = (Inr results, self', w'') \<and>
           slot_world rt (Some m) requests (Suc i) w' =
             \<lparr>ext = snd (create_chat_completion rt m kwargs
                           (ext (slot_world rt (Some m) requests i w'))),
              trace = trace (slot_world rt (Some m) requests i w') @ [ChatCompletion kwargs]\<rparr> \<and>
           results ! i =
             (case fst (create_chat_completion rt m kwargs
                          (ext (slot_world rt (Some m) requests i w'))) of
                Inl e \<Rightarrow>
                  failure_result (request_get (requests ! i) ''request_id'' (PStr ''unknown''))
                    (exn_str e)
              | Inr response \<Rightarrow>
                  (case success_result
                          (request_get (requests ! i) ''request_id'' (PStr ''unknown''))
                          response of
                     Inl e \<Rightarrow>
                       failure_result
                         (request_get (requests ! i) ''request_id'' (PStr ''unknown''))
                         (exn_str e)
                   | Inr result \<Rightarrow> result)) \<and>
           trace (slot_world rt (Some m) requests (Suc i) w') =
             trace (slot_world rt (Some m) requests i w') @ [ChatCompletion kwargs] \<and>
           (requests ! i) ''messages'' = Some (kw_messages kwargs) \<and>
           (\<forall>v. (requests ! i) ''max_tokens'' = Some v \<longrightarrow> kw_max_tokens kwargs = v) \<and>
           (\<forall>v. (requests ! i) ''temperature'' = Some v \<longrightarrow> kw_temperature kwargs = v) \<and>
           (\<forall>v. (requests ! i) ''tools'' = Some v \<longrightarrow> kw_tools kwargs = v) \<and>
           (\<forall>v. (requests ! i) ''tool_choice'' = Some v \<longrightarrow> kw_tool_choice kwargs = v) \<and>
           (kw_response_format kwargs = PDict [(''type'', PStr ''json_object'')] \<or>
            kw_response_format kwargs = PNone) \<and>
           (kw_response_format kwargs = PDict [(''type'', PStr ''json_object'')] \<longleftrightarrow>
              (\<exists>v. (requests ! i) ''tools'' = Some v \<and> truthy v)) \<and>
           ((requests ! i) ''tools'' = None \<or> (requests ! i) ''tools'' = Some PNone \<or>
            (requests ! i) ''tools'' = Some (PList []) \<longrightarrow> kw_response_format kwargs = PNone) \<and>
           (\<forall>t ts. (requests ! i) ''tools'' = Some (PList (t # ts)) \<longrightarrow>
              kw_response_format kwargs = PDict [(''type'', PStr ''json_object'')])"
proof -
  let ?w = "slot_world rt (Some m) requests i w'"
  from LLMModel_call_char [OF assms(1,3)] assms(2)
  obtain results where r:
    "LLMModel_call rt self requests w =
       (Inr results, self', slot_world rt (Some m) requests (length requests) w')"
    "\<forall>i<length requests.
       process_request rt (Some m) (requests ! i) (slot_world rt (Some m) requests i w') =
         (Inr (results ! i), slot_world rt (Some m) requests (Suc i) w')"
    by auto
  from r(2) assms(4)
  have step: "process_request rt (Some m) (requests ! i) ?w =
                (Inr (results ! i), slot_world rt (Some m) requests (Suc i) w')"
    by simp
  from assms(3,4) have len: "has_len (request_get (requests ! i) ''messages'' (PList []))"
    by simp
  from process_request_world [OF len assms(5), of rt m ?w] step
  have world: "slot_world rt (Some m) requests (Suc i) w' =
          \<lparr>ext = snd (create_chat_completion rt m (chat_kwargs_of (requests ! i)) (ext ?w)),
           trace = trace ?w @ [ChatCompletion (chat_kwargs_of (requests ! i))]\<rparr>"
    by simp
  then have tr: "trace (slot_world rt (Some m) requests (Suc i) w') =
          trace ?w @ [ChatCompletion (chat_kwargs_of (requests ! i))]"
    by simp
  from process_request_invoke [OF len assms(5), of rt m ?w] step
  have res: "results ! i =
             (case fst (create_chat_completion rt m (chat_kwargs_of (requests ! i)) (ext ?w)) of
                Inl e \<Rightarrow>
                  failure_result (request_get (requests ! i) ''request_id'' (PStr ''unknown''))
                    (exn_str e)
              | Inr response \<Rightarrow>
                  (case success_result
                          (request_get (requests ! i) ''request_id'' (PStr ''unknown''))
                          response of
                     Inl e \<Rightarrow>
                       failure_result
                         (request_get (requests ! i) ''request_id'' (PStr ''unknown''))
                         (exn_str e)
                   | Inr result \<Rightarrow> result))"
    by simp
  from assms(5) have msgs: "(requests ! i) ''messages'' =
      Some (kw_messages (chat_kwargs_of (requests ! i)))"
    by (cases "(requests ! i) ''messages''")
       (simp_all add: request_get_def chat_kwargs_of_def Let_def)
  show ?thesis
    apply (rule exI [of _ "chat_kwargs_of (requests ! i)"])
    apply (rule exI [of _ results])
    apply (rule exI [of _ "slot_world rt (Some m) requests (length requests) w'"])
    apply (intro conjI)
                apply (rule r(1))
               apply (rule world)
              apply (rule res)
             apply (rule tr)
            apply (rule msgs)
           apply (simp_all add: chat_kwargs_of_def request_get_def Let_def)
    apply (auto split: option.splits)
    done
qed

theorem invocation_arguments_witness:
  "truthy (request_get request_C ''messages'' (PList [])) \<and>
   (\<exists>kwargs results w''.
      LLMModel_call example_runtime example_model example_batch example_world =
        (Inr results, loaded_model, w'') \<and>
      ext (slot_world example_runtime (Some ()) example_batch 3 loaded_world) =
        Suc (ext (slot_world example_runtime (Some ()) example_batch 2 loaded_world)) \<and>
      results ! 2 = failure_result (PStr ''unknown'') ''max_tokens must be positive'' \<and>
      trace (slot_world example_runtime (Some ()) example_batch 3 loaded_world) =
        trace (slot_world example_runtime (Some ()) example_batch 2 loaded_world) @
          [ChatCompletion kwargs] \<and>
      kw_messages kwargs = PList [user_message] \<and>
      kw_max_tokens kwargs = PInt 0 \<and>
      kw_tools kwargs = PList [PDict [(''type'', PStr ''function'')]] \<and>
      kw_response_format kwargs = PDict [(''type'', PStr ''json_object'')])"
proof -
  have i: "2 < length example_batch" and at2: "example_batch ! 2 = request_C"
    by (simp_all add: example_batch_def)
  have t: "truthy (request_get request_C ''messages'' (PList []))"
    by (simp add: request_get_def request_C_def)
  then have t': "truthy (request_get (example_batch ! 2) ''messages'' (PList []))"
    by (simp add: at2)
  have run: "\<And>kwargs n. kw_max_tokens kwargs = PInt 0 \<Longrightarrow>
      create_chat_completion example_runtime () kwargs n =
        (Inl (Exn ''ValueError'' ''max_tokens must be positive''), Suc n)"
    by (simp add: example_runtime_def)
  from invocation_arguments [OF example_start example_loaded example_has_len i t'] t
  show ?thesis
    apply (simp add: at2 request_C_def)
    apply (elim exE conjE)
    apply (rule exI, rule exI)
    apply (intro conjI)
           apply (rule exI, assumption)
          apply (simp add: run)
         apply (simp add: run at2 request_get_def request_C_def)
        apply assumption
       apply simp_all
    done
qed

text \<open>
  C9. Where a request lacks an optional field, the invocation carries the default:
  \<^verbatim>\<open>max_tokens=512\<close>, \<^verbatim>\<open>temperature=0.1\<close>, \<^verbatim>\<open>tools=None\<close>,
  \<^verbatim>\<open>tool_choice=None\<close>.
\<close>

theorem invocation_defaults:
  assumes "start rt self w = (Inr (), self', w')"
    and "model self' = Some m"
    and "\<forall>r\<in>set requests. has_len (request_get r ''messages'' (PList []))"
    and "i < length requests"
    and "truthy (request_get (requests ! i) ''messages'' (PList []))"
  shows "\<exists>kwargs.
           trace (slot_world rt (Some m) requests (Suc i) w') =
             trace (slot_world rt (Some m) requests i w') @ [ChatCompletion kwargs] \<and>
           ((requests ! i) ''max_tokens'' = None \<longrightarrow> kw_max_tokens kwargs = PInt 512) \<and>
           ((requests ! i) ''temperature'' = None \<longrightarrow> kw_temperature kwargs = PFloat 0.1) \<and>
           ((requests ! i) ''tools'' = None \<longrightarrow> kw_tools kwargs = PNone) \<and>
           ((requests ! i) ''tool_choice'' = None \<longrightarrow> kw_tool_choice kwargs = PNone)"
proof -
  from LLMModel_call_char [OF assms(1,3)] assms(2,4)
  have step: "snd (process_request rt (Some m) (requests ! i)
                     (slot_world rt (Some m) requests i w')) =
                slot_world rt (Some m) requests (Suc i) w'"
    by auto
  from assms(3,4) have len: "has_len (request_get (requests ! i) ''messages'' (PList []))"
    by simp
  from process_request_world [OF len assms(5), of rt m "slot_world rt (Some m) requests i w'"]
    step
  have tr: "trace (slot_world rt (Some m) requests (Suc i) w') =
          trace (slot_world rt (Some m) requests i w') @
            [ChatCompletion (chat_kwargs_of (requests ! i))]"
    by simp
  show ?thesis
    apply (rule exI [of _ "chat_kwargs_of (requests ! i)"])
    apply (intro conjI)
        apply (rule tr)
       apply (simp_all add: chat_kwargs_of_def request_get_def Let_def)
    done
qed

theorem invocation_defaults_witness:
  "truthy (request_get request_A ''messages'' (PList [])) \<and>
   (\<exists>kwargs.
      trace (slot_world example_runtime (Some ()) example_batch 1 loaded_world) =
        trace (slot_world example_runtime (Some ()) example_batch 0 loaded_world) @
          [ChatCompletion kwargs] \<and>
      kw_max_tokens kwargs = PInt 512 \<and>
      kw_temperature kwargs = PFloat 0.1 \<and>
      kw_tools kwargs = PNone \<and>
      kw_tool_choice kwargs = PNone)"
proof -
  have i: "0 < length example_batch" and at0: "example_batch ! 0 = request_A"
    by (simp_all add: example_batch_def)
  have t: "truthy (request_get request_A ''messages'' (PList []))"
    by (simp add: request_get_def request_A_def user_message_def)
  then have t': "truthy (request_get (example_batch ! 0) ''messages'' (PList []))"
    by (simp add: at0)
  from invocation_defaults [OF example_start example_loaded example_has_len i t'] t
  show ?thesis
    by (simp add: at0 request_A_def)
qed

text \<open>
  C10. A failure result has no \<^verbatim>\<open>usage\<close> key. A success result has one: the model
  returned a dictionary, and the value is that dictionary's \<^verbatim>\<open>usage\<close>, or the empty
  dictionary when it has none. A request without \<^verbatim>\<open>request_id\<close> gets the result
  \<^verbatim>\<open>request_id\<close> \<^verbatim>\<open>"unknown"\<close>.
\<close>

theorem usage_and_request_id:
  assumes "start rt self w = (Inr (), self', w')"
    and "model self' = Some m"
    and "\<forall>r\<in>set requests. has_len (request_get r ''messages'' (PList []))"
    and "i < length requests"
  shows "\<exists>results w''.
           LLMModel_call rt self requests w = (Inr results, self', w'') \<and>
           (map_of (results ! i) ''success'' = Some (PBool True) \<or>
            map_of (results ! i) ''success'' = Some (PBool False)) \<and>
           (map_of (results ! i) ''success'' = Some (PBool False) \<longrightarrow>
              ''usage'' \<notin> fst ` set (results ! i)) \<and>
           (map_of (results ! i) ''success'' = Some (PBool True) \<longrightarrow>
              (\<exists>kvs x.
                 create_chat_completion rt m (chat_kwargs_of (requests ! i))
                     (ext (slot_world rt (Some m) requests i w')) = (Inr (PDict kvs), x) \<and>
                 map_of (results ! i) ''usage'' =
                   Some (case map_of kvs ''usage'' of None \<Rightarrow> PDict [] | Some u \<Rightarrow> u))) \<and>
           ((requests ! i) ''request_id'' = None \<longrightarrow>
              map_of (results ! i) ''request_id'' = Some (PStr ''unknown''))"
proof -
  from LLMModel_call_char [OF assms(1,3)] assms(2)
  obtain results where r:
    "LLMModel_call rt self requests w =
       (Inr results, self', slot_world rt (Some m) requests (length requests) w')"
    "\<forall>i<length requests.
       process_request rt (Some m) (requests ! i) (slot_world rt (Some m) requests i w') =
         (Inr (results ! i), slot_world rt (Some m) requests (Suc i) w')"
    by auto
  from r(2) assms(4)
  have "fst (process_request rt (Some m) (requests ! i)
               (slot_world rt (Some m) requests i w')) = Inr (results ! i)"
    by simp
  from process_request_shape [OF this]
  have "(map_of (results ! i) ''success'' = Some (PBool True) \<or>
            map_of (results ! i) ''success'' = Some (PBool False)) \<and>
           (map_of (results ! i) ''success'' = Some (PBool False) \<longrightarrow>
              ''usage'' \<notin> fst ` set (results ! i)) \<and>
           (map_of (results ! i) ''success'' = Some (PBool True) \<longrightarrow>
              (\<exists>kvs x.
                 create_chat_completion rt m (chat_kwargs_of (requests ! i))
                     (ext (slot_world rt (Some m) requests i w')) = (Inr (PDict kvs), x) \<and>
                 map_of (results ! i) ''usage'' =
                   Some (case map_of kvs ''usage'' of None \<Rightarrow> PDict [] | Some u \<Rightarrow> u))) \<and>
           ((requests ! i) ''request_id'' = None \<longrightarrow>
              map_of (results ! i) ''request_id'' = Some (PStr ''unknown''))"
    by (auto simp: failure_result_def request_get_def)
  with r(1) show ?thesis
    by (intro exI [of _ results]
              exI [of _ "slot_world rt (Some m) requests (length requests) w'"] conjI)
       simp_all
qed

theorem usage_and_request_id_witness:
  "request_C ''request_id'' = None \<and>
   (\<exists>results w''.
      LLMModel_call example_runtime example_model example_batch example_world =
        (Inr results, loaded_model, w'') \<and>
      map_of (results ! 2) ''request_id'' = Some (PStr ''unknown'') \<and>
      (map_of (results ! 2) ''success'' = Some (PBool True) \<or>
       ''usage'' \<notin> fst ` set (results ! 2)))"
proof -
  have i: "2 < length example_batch" and at2: "example_batch ! 2 = request_C"
    by (simp_all add: example_batch_def)
  have n: "request_C ''request_id'' = None"
    by (simp add: request_C_def)
  from usage_and_request_id [OF example_start example_loaded example_has_len i] n
  show ?thesis
    by (simp add: at2) (elim exE conjE, intro exI conjI, assumption, assumption, fast)
qed

text \<open>
  C7. Loading is lazy and idempotent. \<^verbatim>\<open>start\<close> on a loaded model returns at once and
  changes neither the object nor the world, so a second \<^verbatim>\<open>start\<close> after a successful
  one is a no-op; \<^verbatim>\<open>__call__\<close> on a loaded model constructs no \<^verbatim>\<open>Llama\<close> and keeps
  the model; \<^verbatim>\<open>__call__\<close> on an unloaded model constructs \<^verbatim>\<open>Llama\<close> once, with the
  object's path, context size and layer count. Over any sequence of
  method calls on a new object at most one construction succeeds, and every construction
  uses the parameters given to \<^verbatim>\<open>__init__\<close>.
\<close>

theorem start_lazy_idempotent:
  "(model self = Some m \<longrightarrow> start rt self w = (Inr (), self, w)) \<and>
   (start rt self w = (Inr (), self', w') \<longrightarrow> start rt self' w'' = (Inr (), self', w'')) \<and>
   (model self = Some m \<longrightarrow>
      (\<exists>res v. LLMModel_call rt self requests w = (res, self, v) \<and>
                loads (trace v) = loads (trace w))) \<and>
   (model self = None \<and>
    py_int rt (case environ rt (ext w) ''LLAMA_N_THREADS'' of None \<Rightarrow> ''4'' | Some s \<Rightarrow> s) =
      Inr threads \<longrightarrow>
      (\<exists>res self1 v ok.
         LLMModel_call rt self requests w = (res, self1, v) \<and>
         loads (trace v) =
           loads (trace w) @
             [(\<lparr>kw_model_path = model_path self, kw_n_ctx = n_ctx self,
                kw_n_gpu_layers = n_gpu_layers self, kw_n_threads = threads,
                kw_verbose = False\<rparr>, ok)] \<and>
         (ok \<longleftrightarrow> model self1 \<noteq> None))) \<and>
   (loads (trace w0) = [] \<longrightarrow>
      length (filter snd
                (loads (trace (snd (run_methods rt calls (LLMModel_init path ctx layers, w0))))))
        \<le> 1 \<and>
      (\<forall>(kwargs, ok)\<in>set (loads (trace
            (snd (run_methods rt calls (LLMModel_init path ctx layers, w0))))).
         kw_model_path kwargs = path \<and> kw_n_ctx kwargs = ctx \<and> kw_n_gpu_layers kwargs = layers))"
proof (intro conjI impI)
  assume "model self = Some m"
  then show "start rt self w = (Inr (), self, w)" by (rule start_loaded_noop)
next
  assume "start rt self w = (Inr (), self', w')"
  from start_loaded [OF this] obtain m' where "model self' = Some m'" by blast
  then show "start rt self' w'' = (Inr (), self', w'')" by (rule start_loaded_noop)
next
  assume m: "model self = Some m"
  obtain res v where pr: "process_requests rt (Some m) requests [] w = (res, v)"
    by (cases "process_requests rt (Some m) requests [] w")
  with process_requests_loads [of rt "Some m" requests "[]" w]
  have "loads (trace v) = loads (trace w)" by simp
  moreover from m pr have "LLMModel_call rt self requests w = (res, self, v)"
    by (simp add: LLMModel_call_def start_loaded_noop [OF m])
  ultimately show "\<exists>res v. LLMModel_call rt self requests w = (res, self, v) \<and>
                loads (trace v) = loads (trace w)" by blast
next
  assume a: "model self = None \<and>
    py_int rt (case environ rt (ext w) ''LLAMA_N_THREADS'' of None \<Rightarrow> ''4'' | Some s \<Rightarrow> s) =
      Inr threads"
  from a have a1: "model self = None" and
    a2: "py_int rt (case environ rt (ext w) ''LLAMA_N_THREADS'' of
                      None \<Rightarrow> ''4'' | Some s \<Rightarrow> s) = Inr threads"
    by simp_all
  from start_unloaded [OF a1 a2]
  obtain out self1 w1 ok where s:
    "start rt self w = (out, self1, w1)"
    "loads (trace w1) =
       loads (trace w) @
         [(\<lparr>kw_model_path = model_path self, kw_n_ctx = n_ctx self,
            kw_n_gpu_layers = n_gpu_layers self, kw_n_threads = threads,
            kw_verbose = False\<rparr>, ok)]"
    "ok \<longleftrightarrow> model self1 \<noteq> None"
    by (elim exE conjE) (rule that)
  obtain res v where c: "LLMModel_call rt self requests w = (res, self1, v)"
    "loads (trace v) = loads (trace w1)"
  proof (cases out)
    case (Inl e)
    with s(1) have "LLMModel_call rt self requests w = (Inl e, self1, w1)"
      by (simp add: LLMModel_call_def)
    with that show ?thesis by blast
  next
    case (Inr u)
    obtain res v where pr: "process_requests rt (model self1) requests [] w1 = (res, v)"
      by (cases "process_requests rt (model self1) requests [] w1")
    with process_requests_loads [of rt "model self1" requests "[]" w1]
    have "loads (trace v) = loads (trace w1)" by simp
    moreover from Inr s(1) pr have "LLMModel_call rt self requests w = (res, self1, v)"
      by (simp add: LLMModel_call_def)
    ultimately show ?thesis using that by blast
  qed
  with s(2,3) show "\<exists>res self1 v ok.
         LLMModel_call rt self requests w = (res, self1, v) \<and>
         loads (trace v) =
           loads (trace w) @
             [(\<lparr>kw_model_path = model_path self, kw_n_ctx = n_ctx self,
                kw_n_gpu_layers = n_gpu_layers self, kw_n_threads = threads,
                kw_verbose = False\<rparr>, ok)] \<and>
         (ok \<longleftrightarrow> model self1 \<noteq> None)"
    by (intro exI [of _ res] exI [of _ self1] exI [of _ v] exI [of _ ok]) simp
next
  assume "loads (trace w0) = []"
  from run_methods_invariant [OF init_invariant [OF this], of path ctx layers rt calls]
  have inv: "load_invariant path ctx layers
          (run_methods rt calls (LLMModel_init path ctx layers, w0))" .
  obtain self_n w_n where r: "run_methods rt calls (LLMModel_init path ctx layers, w0) = (self_n, w_n)"
    by (cases "run_methods rt calls (LLMModel_init path ctx layers, w0)")
  with inv have "length (filter snd (loads (trace w_n))) \<le> 1"
    by (cases "model self_n") (simp_all add: load_invariant_def)
  with r show "length (filter snd
                (loads (trace (snd (run_methods rt calls (LLMModel_init path ctx layers, w0))))))
        \<le> 1" by simp
  from inv r show "\<forall>(kwargs, ok)\<in>set (loads (trace
            (snd (run_methods rt calls (LLMModel_init path ctx layers, w0))))).
         kw_model_path kwargs = path \<and> kw_n_ctx kwargs = ctx \<and> kw_n_gpu_layers kwargs = layers"
    by (simp add: load_invariant_def)
qed


theorem start_lazy_idempotent_witness:
  "model loaded_model = Some () \<and>
   start example_runtime loaded_model loaded_world = (Inr (), loaded_model, loaded_world) \<and>
   start example_runtime example_model example_world = (Inr (), loaded_model, loaded_world) \<and>
   loads (trace example_world) = [] \<and>
   length (filter snd (loads (trace (snd (run_methods example_runtime
       [Call example_batch, Start, Call example_batch2]
       (LLMModel_init ''/models/Qwen3-1.7B-Q4_K_M.gguf'' 8192 0, example_world)))))) \<le> 1"
proof -
  have e: "loads (trace example_world) = []"
    by (simp add: example_world_def)
  from start_lazy_idempotent
    [where self = loaded_model and m = "()" and rt = example_runtime and w = loaded_world
       and ?w0.0 = example_world
       and calls = "[Call example_batch, Start, Call example_batch2]"
       and path = "''/models/Qwen3-1.7B-Q4_K_M.gguf''" and ctx = 8192 and layers = 0]
    example_loaded e example_start
  show ?thesis by simp
qed

section \<open>Properties of the service\<close>

text \<open>
  C4, as the code has it. When loading fails, \<^verbatim>\<open>LLMService.__call__\<close> returns no
  result list for any batch: the exception of \<^verbatim>\<open>start\<close> leaves \<^verbatim>\<open>LLMModel.__call__\<close>
  and \<^verbatim>\<open>LLMService.__call__\<close> unchanged, no request is passed to the model, and the
  model stays unloaded.
\<close>

theorem wholesale_failure_propagates:
  assumes "fst (start rt (service_model self) w) = Inl e"
  shows "model (service_model self) = None \<and>
         (\<exists>w'. LLMService_call rt self requests w = (Inl e, self, w') \<and>
               invocations (trace w') = invocations (trace w))"
proof -
  from start_cases [of rt "service_model self" w] assms
  obtain w' where s: "start rt (service_model self) w = (Inl e, service_model self, w')"
    and n: "model (service_model self) = None"
    by auto
  from start_invocations [of rt "service_model self" w] s
  have "invocations (trace w') = invocations (trace w)" by simp
  moreover from s have "LLMService_call rt self requests w = (Inl e, self, w')"
    by (simp add: LLMService_call_def LLMModel_call_def)
  ultimately show ?thesis using n by blast
qed

theorem wholesale_failure_propagates_witness:
  "fst (start broken_runtime (service_model example_service) example_world) =
     Inl (Exn ''ValueError'' ''Model path does not exist: /models/Qwen3-1.7B-Q4_K_M.gguf'') \<and>
   model (service_model example_service) = None \<and>
   (\<exists>w'. LLMService_call broken_runtime example_service example_batch example_world =
           (Inl (Exn ''ValueError'' ''Model path does not exist: /models/Qwen3-1.7B-Q4_K_M.gguf''),
            example_service, w') \<and>
         invocations (trace w') = invocations (trace example_world))"
proof -
  have h: "fst (start broken_runtime (service_model example_service) example_world) =
     Inl (Exn ''ValueError'' ''Model path does not exist: /models/Qwen3-1.7B-Q4_K_M.gguf'')"
    by (simp add: start_def service_defs)
  from wholesale_failure_propagates [OF h, of example_batch] h show ?thesis
    by simp
qed

text \<open>
  C4 as the specification states it fails: with a model file that does not exist, a batch
  of two requests gets the loader's exception, not two failure results.
\<close>

theorem wholesale_failure_counterexample:
  "fst (LLMService_call broken_runtime example_service [request_A, request_B] example_world) =
     Inl (Exn ''ValueError'' ''Model path does not exist: /models/Qwen3-1.7B-Q4_K_M.gguf'')"
  by (simp add: LLMService_call_def LLMModel_call_def start_def service_defs)

text \<open>
  C5, as the code has it. \<^verbatim>\<open>reconfigure\<close> validates nothing and knows no
  \<^verbatim>\<open>InvalidConfig\<close>: it first stores the two values of \<^verbatim>\<open>user_config\<close> (16 and 0.05
  where a key is missing) in the service, replacing the previous ones, and leaves the model
  adapter alone; whether it then returns or raises is the same for every configuration
  and every service, and an exception it raises is never an \<^verbatim>\<open>InvalidConfig\<close>.
\<close>

theorem reconfigure_stores_unvalidated:
  "max_batch_size (snd (reconfigure self user_config)) =
     (case user_config ''max_batch_size'' of None \<Rightarrow> PInt 16 | Some v \<Rightarrow> v) \<and>
   batch_wait_timeout_s (snd (reconfigure self user_config)) =
     (case user_config ''batch_wait_timeout_s'' of None \<Rightarrow> PFloat 0.05 | Some v \<Rightarrow> v) \<and>
   service_model (snd (reconfigure self user_config)) = service_model self \<and>
   fst (reconfigure self user_config) = fst (reconfigure self' user_config') \<and>
   (\<forall>e. fst (reconfigure self user_config) = Inl e \<longrightarrow> exn_class e \<noteq> ''InvalidConfig'')"
  by (simp add: reconfigure_def Let_def request_get_def LLMModel_call_getattr_def
        no_attribute_def split: option.splits)

theorem reconfigure_stores_unvalidated_witness:
  "max_batch_size (snd (reconfigure example_service [''max_batch_size'' \<mapsto> PInt 0])) = PInt 0 \<and>
   batch_wait_timeout_s (snd (reconfigure example_service [''max_batch_size'' \<mapsto> PInt 0])) =
     PFloat 0.05 \<and>
   fst (reconfigure example_service [''max_batch_size'' \<mapsto> PInt 0]) =
     fst (reconfigure example_service
            [''max_batch_size'' \<mapsto> PInt 8, ''batch_wait_timeout_s'' \<mapsto> PFloat 0.1]) \<and>
   fst (reconfigure example_service [''max_batch_size'' \<mapsto> PInt 0]) =
     Inl (no_attribute ''function'' ''set_max_batch_size'') \<and>
   exn_class (no_attribute ''function'' ''set_max_batch_size'') \<noteq> ''InvalidConfig''"
proof -
  have h: "fst (reconfigure example_service [''max_batch_size'' \<mapsto> PInt 0]) =
             Inl (no_attribute ''function'' ''set_max_batch_size'')"
    by (simp add: reconfigure_def Let_def LLMModel_call_getattr_def)
  from reconfigure_stores_unvalidated
         [of example_service "[''max_batch_size'' \<mapsto> PInt 0]" example_service
             "[''max_batch_size'' \<mapsto> PInt 8, ''batch_wait_timeout_s'' \<mapsto> PFloat 0.1]"]
  have "max_batch_size (snd (reconfigure example_service [''max_batch_size'' \<mapsto> PInt 0])) =
          PInt 0"
    and "batch_wait_timeout_s (snd (reconfigure example_service [''max_batch_size'' \<mapsto> PInt 0])) =
          PFloat 0.05"
    and "fst (reconfigure example_service [''max_batch_size'' \<mapsto> PInt 0]) =
           fst (reconfigure example_service
                  [''max_batch_size'' \<mapsto> PInt 8, ''batch_wait_timeout_s'' \<mapsto> PFloat 0.1])"
    and "\<forall>e. fst (reconfigure example_service [''max_batch_size'' \<mapsto> PInt 0]) = Inl e \<longrightarrow>
             exn_class e \<noteq> ''InvalidConfig''"
    by simp_all
  with h show ?thesis by simp
qed

text \<open>
  C5 as the specification states it fails. With \<^verbatim>\<open>max_batch_size=0\<close> the call does not
  fail with \<^verbatim>\<open>InvalidConfig\<close>: it fails with the \<^verbatim>\<open>AttributeError\<close> that the valid
  configuration \<^verbatim>\<open>max_batch_size=8\<close>, \<^verbatim>\<open>batch_wait_timeout_s=0.1\<close> meets as well, so
  nothing was validated; and the configuration stored in the service is not left as it
  was, since 16 has become 0 although the call failed.
\<close>

theorem reconfigure_counterexample:
  "fst (reconfigure example_service [''max_batch_size'' \<mapsto> PInt 0]) =
     Inl (Exn ''AttributeError''
            (quoted ''function'' @ '' object has no attribute '' @
             quoted ''set_max_batch_size'')) \<and>
   fst (reconfigure example_service
          [''max_batch_size'' \<mapsto> PInt 8, ''batch_wait_timeout_s'' \<mapsto> PFloat 0.1]) =
     Inl (Exn ''AttributeError''
            (quoted ''function'' @ '' object has no attribute '' @
             quoted ''set_max_batch_size'')) \<and>
   max_batch_size example_service = PInt 16 \<and>
   snd (reconfigure example_service [''max_batch_size'' \<mapsto> PInt 0]) =
     example_service\<lparr>max_batch_size := PInt 0\<rparr>"
  by (simp add: reconfigure_def Let_def request_get_def LLMModel_call_getattr_def
        no_attribute_def example_service_def LLMService_init_def)


end
